theory Spec2Isabelle
  imports Complex_Main "HOL-Library.Sublist"
begin

section \<open>Data model of the wellness store\<close>

text \<open>
  The store is the React provider \<open>WellnessProvider\<close>. Its TypeScript interfaces become
  records and its string-literal unions become datatypes. Record fields carry a short
  prefix because several interfaces share the field names \<open>id\<close>, \<open>date\<close>, \<open>title\<close>,
  \<open>completed\<close> and \<open>category\<close>.
\<close>

datatype Mood = Excellent | Good | Okay | Poor | Awful

datatype Category = Mindfulness | Health | Reflection | Exercise | Learning

datatype Sender = User | Bot

datatype Quality = QExcellent | QGood | QFair | QPoor

record MoodEntry =
  m_date :: string
  m_mood :: Mood
  m_note :: "string option"

text \<open>
  \<open>streak\<close> is a JavaScript number that starts at 0 and only ever has 1 added to it;
  such additions are exact on every count below \<open>2 ^ 53\<close>, so the count is a \<open>nat\<close>.
\<close>

record HabitItem =
  h_id :: string
  h_name :: string
  h_completed :: bool
  h_streak :: nat
  h_category :: Category
  h_dateCompleted :: "string option"

record TodoItem =
  t_id :: string
  t_title :: string
  t_completed :: bool
  t_category :: Category

text \<open>The argument type of \<open>addTodos\<close>: a \<open>TodoItem\<close> without \<open>id\<close> and \<open>completed\<close>.\<close>

record NewTodo =
  n_title :: string
  n_category :: Category

record ChatMessage =
  c_id :: string
  c_text :: string
  c_sender :: Sender
  c_timestamp :: string

text \<open>The argument type of \<open>addSleepEntry\<close>: a \<open>SleepEntry\<close> without \<open>id\<close>.\<close>

record NewSleep =
  ns_date :: string
  ns_bedtime :: string
  ns_wakeup :: string
  ns_durationMinutes :: int
  ns_quality :: Quality

record SleepEntry =
  s_id :: string
  s_date :: string
  s_bedtime :: string
  s_wakeup :: string
  s_durationMinutes :: int
  s_quality :: Quality

record JournalEntry =
  j_id :: string
  j_title :: string
  j_content :: string
  j_date :: string
  j_mood :: "Mood option"

text \<open>
  The seven \<open>useState\<close> cells of the provider. \<open>todayMood\<close> has type \<open>MoodId\<close>, whose
  extra value \<open>""\<close> (no mood chosen yet) is \<open>None\<close>.
\<close>

record Store =
  todayMood :: "Mood option"
  moodHistory :: "MoodEntry list"
  habits :: "HabitItem list"
  todos :: "TodoItem list"
  chatMessages :: "ChatMessage list"
  sleepEntries :: "SleepEntry list"
  journalEntries :: "JournalEntry list"

section \<open>Strings\<close>

text \<open>
  Strings are lists of 8-bit characters (a character outside ASCII is several of them).
  \<open>toLowerCase\<close> maps the letters \<open>A\<close> to \<open>Z\<close> and keeps every other character. It
  is \<open>String.prototype.toLowerCase\<close> on ASCII text, and it serves the pattern tests of
  the chat component, whose patterns are all ASCII.
\<close>

definition toLowerChar :: "char \<Rightarrow> char" where
  "toLowerChar c =
     (case map_of (zip ''ABCDEFGHIJKLMNOPQRSTUVWXYZ'' ''abcdefghijklmnopqrstuvwxyz'') c of
        Some l \<Rightarrow> l
      | None \<Rightarrow> c)"

definition toLowerCase :: "string \<Rightarrow> string" where
  "toLowerCase s = map toLowerChar s"

text \<open>
  \<open>String.prototype.toLowerCase\<close> on every text, as the comparison of habit names
  needs it. On a text with a character outside ASCII, JavaScript applies the case
  mapping of Unicode, which can also yield ASCII letters (the Kelvin sign becomes
  \<open>k\<close>). That mapping is a table of the platform and a parameter here,
  \<open>unicodeLower\<close>; nothing is assumed about it.
\<close>

definition isAscii :: "string \<Rightarrow> bool" where
  "isAscii s = list_all (\<lambda>c. \<not> digit7 c) s"

definition jsToLowerCase :: "(string \<Rightarrow> string) \<Rightarrow> string \<Rightarrow> string" where
  "jsToLowerCase unicodeLower s = (if isAscii s then toLowerCase s else unicodeLower s)"

text \<open>
  Every regular expression of the source is an alternation of literal strings, tested
  unanchored with \<open>RegExp.prototype.test\<close>: the test holds when one of the alternatives
  occurs in the subject as a contiguous substring. \<open>occursIn pat s\<close> tries \<open>pat\<close> at
  every position of \<open>s\<close> from the left.
\<close>

fun occursIn :: "string \<Rightarrow> string \<Rightarrow> bool" where
  "occursIn pat [] = (pat = [])"
| "occursIn pat (c # cs) = (prefix pat (c # cs) \<or> occursIn pat cs)"

definition regexTest :: "string list \<Rightarrow> string \<Rightarrow> bool" where
  "regexTest alternatives s = list_ex (\<lambda>pat. occursIn pat s) alternatives"

text \<open>A thrown JavaScript \<open>Error\<close> with its message.\<close>

datatype exn = Error string

section \<open>Store operations\<close>

text \<open>
  A state setter called with a value replaces the cell; called with a function
  \<open>prev => ...\<close> it is applied to the latest value of the cell, so consecutive calls
  compose. Each operation is a function from the store to the store. The values that
  come from the environment (\<open>Date.now\<close>, \<open>Math.random\<close>, \<open>new Date\<close>) are
  parameters.
\<close>

definition setTodayMood :: "Mood \<Rightarrow> Store \<Rightarrow> Store" where
  "setTodayMood mood s = s\<lparr>todayMood := Some mood\<rparr>"

definition addMoodEntry :: "string \<Rightarrow> Mood \<Rightarrow> string option \<Rightarrow> Store \<Rightarrow> Store" where
  "addMoodEntry now mood note s =
     (let entry = \<lparr>m_date = now, m_mood = mood, m_note = note\<rparr>
      in s\<lparr>moodHistory := entry # moodHistory s, todayMood := Some mood\<rparr>)"

text \<open>
  \<open>addHabit\<close> tests for a duplicate against the constant \<open>habits\<close> of the render that
  created this function object, and appends through the functional setter, which works
  on the latest value of the cell. \<open>seen\<close> is that captured constant. A handler that
  runs from the latest render has \<open>seen = habits s\<close>; the calls that \<open>addTodos\<close>
  makes in one \<open>forEach\<close> all share one \<open>seen\<close>. The second argument of the source
  defaults to \<open>"health"\<close> when it is not given.
\<close>

definition addHabit ::
  "(string \<Rightarrow> string) \<Rightarrow> HabitItem list \<Rightarrow> string \<Rightarrow> string \<Rightarrow> Category option \<Rightarrow>
   Store \<Rightarrow> Store" where
  "addHabit unicodeLower seen newId name category s =
     (let exists =
            list_ex (\<lambda>h. jsToLowerCase unicodeLower (h_name h) = jsToLowerCase unicodeLower name)
              seen
      in if exists then s
         else
           (let newHabit =
                  \<lparr>h_id = newId, h_name = name, h_completed = False, h_streak = 0,
                   h_category = (case category of None \<Rightarrow> Health | Some c \<Rightarrow> c),
                   h_dateCompleted = None\<rparr>
            in s\<lparr>habits := habits s @ [newHabit]\<rparr>))"

text \<open>\<open>today\<close> is \<open>new Date().toISOString().slice(0, 10)\<close>.\<close>

definition toggleOne :: "string \<Rightarrow> string \<Rightarrow> HabitItem \<Rightarrow> HabitItem" where
  "toggleOne today i habit =
     (if h_id habit = i
      then habit\<lparr>h_completed := \<not> h_completed habit,
                 h_streak := (if h_completed habit then h_streak habit else h_streak habit + 1),
                 h_dateCompleted := (if \<not> h_completed habit then Some today else None)\<rparr>
      else habit)"

definition toggleHabit :: "string \<Rightarrow> string \<Rightarrow> Store \<Rightarrow> Store" where
  "toggleHabit today i s = s\<lparr>habits := map (toggleOne today i) (habits s)\<rparr>"

definition deleteHabit :: "string \<Rightarrow> Store \<Rightarrow> Store" where
  "deleteHabit i s = s\<lparr>habits := filter (\<lambda>h. h_id h \<noteq> i) (habits s)\<rparr>"

text \<open>
  \<open>addTodos\<close> draws one identifier per item for the todo (\<open>tid k\<close> for the item at
  index \<open>k\<close>) and \<open>addHabit\<close> draws its own (\<open>hid k\<close>) when it appends.
\<close>

definition addTodos ::
  "(string \<Rightarrow> string) \<Rightarrow> HabitItem list \<Rightarrow> (nat \<Rightarrow> string) \<Rightarrow> (nat \<Rightarrow> string) \<Rightarrow>
   NewTodo list \<Rightarrow> Store \<Rightarrow> Store" where
  "addTodos unicodeLower seen tid hid items s =
     (let withIds =
            map (\<lambda>(k, t). \<lparr>t_id = tid k, t_title = n_title t, t_completed = False,
                            t_category = n_category t\<rparr>)
                (enumerate 0 items);
          s1 = s\<lparr>todos := withIds @ todos s\<rparr>
      in fold (\<lambda>(k, t). addHabit unicodeLower seen (hid k) (t_title t) (Some (t_category t)))
              (enumerate 0 withIds) s1)"

definition addChatMessage :: "ChatMessage \<Rightarrow> Store \<Rightarrow> Store" where
  "addChatMessage message s = s\<lparr>chatMessages := chatMessages s @ [message]\<rparr>"

text \<open>The object literal \<open>{ id, ...entry }\<close>.\<close>

definition sleepItem :: "string \<Rightarrow> NewSleep \<Rightarrow> SleepEntry" where
  "sleepItem newId entry =
     \<lparr>s_id = newId, s_date = ns_date entry, s_bedtime = ns_bedtime entry,
      s_wakeup = ns_wakeup entry, s_durationMinutes = ns_durationMinutes entry,
      s_quality = ns_quality entry\<rparr>"

definition addSleepEntry :: "string \<Rightarrow> NewSleep \<Rightarrow> Store \<Rightarrow> Store" where
  "addSleepEntry newId entry s =
     (let item = sleepItem newId entry;
          withoutSameDate = filter (\<lambda>e. s_date e \<noteq> ns_date entry) (sleepEntries s)
      in s\<lparr>sleepEntries := item # withoutSameDate\<rparr>)"

text \<open>The argument type of \<open>addJournalEntry\<close>: a \<open>JournalEntry\<close> without \<open>id\<close>.\<close>

record NewJournal =
  nj_title :: string
  nj_content :: string
  nj_date :: string
  nj_mood :: "Mood option"

text \<open>
  The argument type of \<open>updateJournalEntry\<close>: every field optional. A field that is
  present overwrites, also when it is present with the value \<open>undefined\<close>.
\<close>

record PartialJournal =
  pj_title :: "string option"
  pj_content :: "string option"
  pj_date :: "string option"
  pj_mood :: "Mood option option"

definition addJournalEntry :: "string \<Rightarrow> NewJournal \<Rightarrow> Store \<Rightarrow> Store" where
  "addJournalEntry newId entry s =
     (let item = \<lparr>j_id = newId, j_title = nj_title entry, j_content = nj_content entry,
                  j_date = nj_date entry, j_mood = nj_mood entry\<rparr>
      in s\<lparr>journalEntries := item # journalEntries s\<rparr>)"

definition mergeJournal :: "JournalEntry \<Rightarrow> PartialJournal \<Rightarrow> JournalEntry" where
  "mergeJournal entry updatedEntry =
     \<lparr>j_id = j_id entry,
      j_title = (case pj_title updatedEntry of None \<Rightarrow> j_title entry | Some v \<Rightarrow> v),
      j_content = (case pj_content updatedEntry of None \<Rightarrow> j_content entry | Some v \<Rightarrow> v),
      j_date = (case pj_date updatedEntry of None \<Rightarrow> j_date entry | Some v \<Rightarrow> v),
      j_mood = (case pj_mood updatedEntry of None \<Rightarrow> j_mood entry | Some v \<Rightarrow> v)\<rparr>"

definition updateJournalEntry :: "string \<Rightarrow> PartialJournal \<Rightarrow> Store \<Rightarrow> Store" where
  "updateJournalEntry i updatedEntry s =
     s\<lparr>journalEntries :=
         map (\<lambda>entry. if j_id entry = i then mergeJournal entry updatedEntry else entry)
             (journalEntries s)\<rparr>"

definition deleteJournalEntry :: "string \<Rightarrow> Store \<Rightarrow> Store" where
  "deleteJournalEntry i s =
     s\<lparr>journalEntries := filter (\<lambda>entry. j_id entry \<noteq> i) (journalEntries s)\<rparr>"

text \<open>
  The initial values of the seven cells. \<open>today\<close> and \<open>now\<close> are the date and the
  date-time at which the module is loaded and the provider first renders.
\<close>

definition initialStore :: "string \<Rightarrow> string \<Rightarrow> Store" where
  "initialStore today now =
     \<lparr>todayMood = None,
      moodHistory =
        [\<lparr>m_date = today, m_mood = Good, m_note = Some ''Had a productive day at work''\<rparr>],
      habits = [],
      todos = [],
      chatMessages =
        [\<lparr>c_id = ''1'',
          c_text = ''Hello! I'm here to support you on your wellness journey. How are you feeling today?'',
          c_sender = Bot, c_timestamp = now\<rparr>],
      sleepEntries = [],
      journalEntries = []\<rparr>"

text \<open>
  The three mount effects on the cells of the store, for stored arrays whose elements
  have the declared shapes. Each argument is what the effect found under its key:
  \<open>Some xs\<close> when the stored text parsed to the array \<open>xs\<close>, \<open>None\<close> in every case in
  which the effect keeps the cell (nothing stored, the empty text, a parse error, a
  value that is no array). The chat effect also keeps the cell on an empty array. No
  effect looks at the elements of the array.
\<close>

definition hydrate ::
  "ChatMessage list option \<Rightarrow> SleepEntry list option \<Rightarrow> JournalEntry list option \<Rightarrow>
   Store \<Rightarrow> Store" where
  "hydrate chat sleep journal s =
     s\<lparr>chatMessages :=
         (case chat of
            Some parsed \<Rightarrow> if length parsed > 0 then parsed else chatMessages s
          | None \<Rightarrow> chatMessages s),
       sleepEntries := (case sleep of Some parsed \<Rightarrow> parsed | None \<Rightarrow> sleepEntries s),
       journalEntries := (case journal of Some parsed \<Rightarrow> parsed | None \<Rightarrow> journalEntries s)\<rparr>"

text \<open>
  One call of a store operation by an event handler that runs from the latest render, so
  that the \<open>habits\<close> constant its closures captured is the current cell. An operation
  carries what the call takes from the environment: the identifiers drawn, the date,
  and the case mapping of the platform.
\<close>

datatype Op =
    SetTodayMood Mood
  | AddMoodEntry string Mood "string option"
  | AddHabit "string \<Rightarrow> string" string string "Category option"
  | ToggleHabit string string
  | DeleteHabit string
  | AddTodos "string \<Rightarrow> string" "nat \<Rightarrow> string" "nat \<Rightarrow> string" "NewTodo list"
  | AddChatMessage ChatMessage
  | AddSleepEntry string NewSleep
  | AddJournalEntry string NewJournal
  | UpdateJournalEntry string PartialJournal
  | DeleteJournalEntry string

fun apply_op :: "Op \<Rightarrow> Store \<Rightarrow> Store" where
  "apply_op (SetTodayMood mood) s = setTodayMood mood s"
| "apply_op (AddMoodEntry now mood note) s = addMoodEntry now mood note s"
| "apply_op (AddHabit unicodeLower newId name category) s =
     addHabit unicodeLower (habits s) newId name category s"
| "apply_op (ToggleHabit today i) s = toggleHabit today i s"
| "apply_op (DeleteHabit i) s = deleteHabit i s"
| "apply_op (AddTodos unicodeLower tid hid items) s =
     addTodos unicodeLower (habits s) tid hid items s"
| "apply_op (AddChatMessage message) s = addChatMessage message s"
| "apply_op (AddSleepEntry newId entry) s = addSleepEntry newId entry s"
| "apply_op (AddJournalEntry newId entry) s = addJournalEntry newId entry s"
| "apply_op (UpdateJournalEntry i updatedEntry) s = updateJournalEntry i updatedEntry s"
| "apply_op (DeleteJournalEntry i) s = deleteJournalEntry i s"

text \<open>
  The stores a session reaches from a store \<open>start\<close>: by store operations called from
  the latest render, and by \<open>addHabit\<close> and \<open>addTodos\<close> called through a closure of an
  earlier render, whose captured \<open>habits\<close> are those of a store \<open>p\<close> reached before
  (\<open>sendMessage\<close> calls \<open>addTodos\<close> after an \<open>await\<close>).
\<close>

inductive reaches :: "Store \<Rightarrow> Store \<Rightarrow> bool" for start where
  reaches_start: "reaches start start"
| reaches_step: "reaches start s \<Longrightarrow> reaches start (apply_op op s)"
| reaches_stale_addHabit:
    "reaches start p \<Longrightarrow> reaches start s \<Longrightarrow>
     reaches start (addHabit unicodeLower (habits p) newId name category s)"
| reaches_stale_addTodos:
    "reaches start p \<Longrightarrow> reaches start s \<Longrightarrow>
     reaches start (addTodos unicodeLower (habits p) tid hid items s)"

text \<open>
  The stores a session can reach at all: it starts from the initial store as the mount
  effects leave it, whatever the three keys of the persistent store hold.
\<close>

definition reachable :: "Store \<Rightarrow> bool" where
  "reachable s =
     (\<exists>chat sleep journal today now.
        reaches (hydrate chat sleep journal (initialStore today now)) s)"

fun run :: "Op list \<Rightarrow> Store \<Rightarrow> Store" where
  "run [] s = s"
| "run (op # ops) s = run ops (apply_op op s)"

text \<open>
  Where the habit at index \<open>k\<close> of the store stands after one operation: \<open>deleteHabit\<close>
  filters the list, so a habit that is kept moves left by the number of habits removed
  before it, and a habit that is removed has no position; every other operation keeps
  the positions of the habits that exist. \<open>position_after_run\<close> follows a habit
  through a sequence of operations, up to its deletion.
\<close>

fun position_after :: "Op \<Rightarrow> Store \<Rightarrow> nat \<Rightarrow> nat option" where
  "position_after (DeleteHabit i) s k =
     (if k < length (habits s) \<and> h_id (habits s ! k) \<noteq> i
      then Some (length (filter (\<lambda>h. h_id h \<noteq> i) (take k (habits s))))
      else None)"
| "position_after _ s k = (if k < length (habits s) then Some k else None)"

fun position_after_run :: "Op list \<Rightarrow> Store \<Rightarrow> nat \<Rightarrow> nat option" where
  "position_after_run [] s k = (if k < length (habits s) then Some k else None)"
| "position_after_run (op # ops) s k =
     (case position_after op s k of
        None \<Rightarrow> None
      | Some k' \<Rightarrow> position_after_run ops (apply_op op s) k')"

section \<open>Persistence bridge: hydration on mount\<close>

text \<open>
  The three mount effects read \<open>localStorage\<close>, call \<open>JSON.parse\<close> and test
  \<open>Array.isArray\<close>. The cast \<open>as ChatMessage[]\<close> is erased at run time, so the cell
  receives the parsed array as it is: the collections are lists of JSON values here.
  \<open>getItem\<close> is what \<open>localStorage.getItem(key)\<close> did (it threw, returned \<open>null\<close>, or
  returned a text) and \<open>parse\<close> is \<open>JSON.parse\<close>, which throws or returns a value.
\<close>

datatype json =
    JNull
  | JBool bool
  | JNum real
  | JStr string
  | JArr "json list"
  | JObj "(string \<times> json) list"

fun isArray :: "json \<Rightarrow> bool" where
  "isArray (JArr xs) = True"
| "isArray _ = False"

fun elements :: "json \<Rightarrow> json list" where
  "elements (JArr xs) = xs"
| "elements _ = []"

text \<open>
  The body of the \<open>try\<close> block of each effect, and the effect itself, whose empty
  \<open>catch\<close> drops every exception. \<open>if (raw)\<close> is false for \<open>null\<close> and for the empty
  text.
\<close>

definition hydrateChat_try ::
  "(string \<Rightarrow> exn + json) \<Rightarrow> exn + string option \<Rightarrow> json list \<Rightarrow> exn + json list" where
  "hydrateChat_try parse getItem current =
     (case getItem of
        Inl e \<Rightarrow> Inl e
      | Inr None \<Rightarrow> Inr current
      | Inr (Some raw) \<Rightarrow>
          if raw = [] then Inr current
          else
            (case parse raw of
               Inl e \<Rightarrow> Inl e
             | Inr parsed \<Rightarrow>
                 if isArray parsed \<and> length (elements parsed) > 0
                 then Inr (elements parsed)
                 else Inr current))"

definition hydrateChat ::
  "(string \<Rightarrow> exn + json) \<Rightarrow> exn + string option \<Rightarrow> json list \<Rightarrow> json list" where
  "hydrateChat parse getItem current =
     (case hydrateChat_try parse getItem current of
        Inl e \<Rightarrow> current
      | Inr messages \<Rightarrow> messages)"

definition hydrateSleep_try ::
  "(string \<Rightarrow> exn + json) \<Rightarrow> exn + string option \<Rightarrow> json list \<Rightarrow> exn + json list" where
  "hydrateSleep_try parse getItem current =
     (case getItem of
        Inl e \<Rightarrow> Inl e
      | Inr None \<Rightarrow> Inr current
      | Inr (Some raw) \<Rightarrow>
          if raw = [] then Inr current
          else
            (case parse raw of
               Inl e \<Rightarrow> Inl e
             | Inr parsed \<Rightarrow> if isArray parsed then Inr (elements parsed) else Inr current))"

definition hydrateSleep ::
  "(string \<Rightarrow> exn + json) \<Rightarrow> exn + string option \<Rightarrow> json list \<Rightarrow> json list" where
  "hydrateSleep parse getItem current =
     (case hydrateSleep_try parse getItem current of
        Inl e \<Rightarrow> current
      | Inr entries \<Rightarrow> entries)"

definition hydrateJournal_try ::
  "(string \<Rightarrow> exn + json) \<Rightarrow> exn + string option \<Rightarrow> json list \<Rightarrow> exn + json list" where
  "hydrateJournal_try parse getItem current =
     (case getItem of
        Inl e \<Rightarrow> Inl e
      | Inr None \<Rightarrow> Inr current
      | Inr (Some raw) \<Rightarrow>
          if raw = [] then Inr current
          else
            (case parse raw of
               Inl e \<Rightarrow> Inl e
             | Inr parsed \<Rightarrow> if isArray parsed then Inr (elements parsed) else Inr current))"

definition hydrateJournal ::
  "(string \<Rightarrow> exn + json) \<Rightarrow> exn + string option \<Rightarrow> json list \<Rightarrow> json list" where
  "hydrateJournal parse getItem current =
     (case hydrateJournal_try parse getItem current of
        Inl e \<Rightarrow> current
      | Inr entries \<Rightarrow> entries)"

text \<open>
  The shapes that the interfaces \<open>ChatMessage\<close> and \<open>SleepEntry\<close> declare, as tests on
  a JSON value: an object with the declared properties at the declared types.
\<close>

definition hasString :: "json \<Rightarrow> string \<Rightarrow> bool" where
  "hasString v k =
     (case v of
        JObj props \<Rightarrow> (case map_of props k of Some (JStr x) \<Rightarrow> True | _ \<Rightarrow> False)
      | _ \<Rightarrow> False)"

definition hasNumber :: "json \<Rightarrow> string \<Rightarrow> bool" where
  "hasNumber v k =
     (case v of
        JObj props \<Rightarrow> (case map_of props k of Some (JNum x) \<Rightarrow> True | _ \<Rightarrow> False)
      | _ \<Rightarrow> False)"

definition hasOneOf :: "json \<Rightarrow> string \<Rightarrow> string list \<Rightarrow> bool" where
  "hasOneOf v k allowed =
     (case v of
        JObj props \<Rightarrow> (case map_of props k of Some (JStr x) \<Rightarrow> x \<in> set allowed | _ \<Rightarrow> False)
      | _ \<Rightarrow> False)"

definition is_ChatMessage :: "json \<Rightarrow> bool" where
  "is_ChatMessage v =
     (hasString v ''id'' \<and> hasString v ''text'' \<and> hasOneOf v ''sender'' [''user'', ''bot''] \<and>
      hasString v ''timestamp'')"

definition is_SleepEntry :: "json \<Rightarrow> bool" where
  "is_SleepEntry v =
     (hasString v ''id'' \<and> hasString v ''date'' \<and> hasString v ''bedtime'' \<and>
      hasString v ''wakeup'' \<and> hasNumber v ''durationMinutes'' \<and>
      hasOneOf v ''quality'' [''excellent'', ''good'', ''fair'', ''poor''])"

text \<open>The initial chat message of the provider, as the JSON value the cell holds.\<close>

definition greeting :: "string \<Rightarrow> json" where
  "greeting now =
     JObj [(''id'', JStr ''1''),
           (''text'', JStr ''Hello! I'm here to support you on your wellness journey. How are you feeling today?''),
           (''sender'', JStr ''bot''),
           (''timestamp'', JStr now)]"

text \<open>
  \<open>JSON.parse\<close> as far as one stored text needs it: on the text \<open>known\<close> it returns
  the value \<open>v\<close> that the text denotes.
\<close>

definition parseOnly :: "string \<Rightarrow> json \<Rightarrow> string \<Rightarrow> exn + json" where
  "parseOnly known v raw = (if raw = known then Inr v else Inl (Error ''SyntaxError''))"


section \<open>Chat component\<close>

text \<open>
  The pattern of \<open>crisisRegex\<close>,
  \<^verbatim>\<open>/(suicide|kill myself|end it|can't go on|self[- ]?harm|hurt myself)/i\<close>,
  as its literal alternatives; \<open>self[- ]?harm\<close> stands for three of them. The flag
  \<open>i\<close> compares letters without regard to case, which on ASCII patterns is the test of
  the lower-cased subject against the lower-case alternatives.
\<close>

definition crisisRegex :: "string list" where
  "crisisRegex =
     [''suicide'', ''kill myself'', ''end it'', ''can't go on'',
      ''selfharm'', ''self-harm'', ''self harm'', ''hurt myself'']"

definition crisisRegex_test :: "string \<Rightarrow> bool" where
  "crisisRegex_test userText = regexTest crisisRegex (toLowerCase userText)"

text \<open>The text that \<open>generateBotReply\<close> puts in front of the reply on a match.\<close>

definition preamble :: string where
  "preamble = ''I'm really sorry you're feeling this way. You deserve immediate support. If you might be in danger or thinking about hurting yourself, please contact local emergency services, a trusted person, or a crisis line in your area right now. If you'd like, I can share grounding or breathing steps while you reach out. ''"

definition botResponses :: "string list" where
  "botResponses =
     [''That sounds like you're going through a lot. Remember, it's okay to feel this way.'',
      ''I hear you. Taking time for yourself is so important. Have you tried any breathing exercises today?'',
      ''It's wonderful that you're sharing this with me. What usually helps you feel better?'',
      ''Thank you for being open about your feelings. Would you like to try a quick mindfulness exercise?'',
      ''I understand. Sometimes just talking about it can help. Is there anything specific on your mind?'',
      ''That's a great insight. How can we work together to support your wellbeing today?'',
      ''I'm glad you're taking care of yourself. What's one small thing you could do for yourself right now?'']"

text \<open>
  \<open>generateBotReply\<close> throws when the API key is missing (\<open>undefined\<close> or the empty
  text) and rethrows whatever the calls to the assistant throw. \<open>response\<close> is the
  outcome of those calls: they threw, or \<open>response.text()\<close> returned a text. The
  transcript argument of the source only feeds the request, so it has no counterpart
  here.
\<close>

definition generateBotReply :: "string option \<Rightarrow> exn + string \<Rightarrow> string \<Rightarrow> exn + string" where
  "generateBotReply apiKey response userText =
     (if apiKey = None \<or> apiKey = Some []
      then Inl (Error ''Missing API key'')
      else
        (case response of
           Inl error \<Rightarrow> Inl error
         | Inr text \<Rightarrow>
             if crisisRegex_test userText then Inr (preamble @ text) else Inr text))"

text \<open>
  The text of the bot message that \<open>sendMessage\<close> appends for the trimmed user text:
  the reply, or in the \<open>catch\<close> branch the canned response at index
  \<open>r = Math.floor(Math.random() * botResponses.length)\<close>, which is below 7.
\<close>

definition sendMessage_reply ::
  "string option \<Rightarrow> exn + string \<Rightarrow> nat \<Rightarrow> string \<Rightarrow> string" where
  "sendMessage_reply apiKey response r userText =
     (case generateBotReply apiKey response userText of
        Inr reply \<Rightarrow> reply
      | Inl err \<Rightarrow> botResponses ! r)"

text \<open>The result type \<open>Analyzed\<close> of the classification.\<close>

record Analyzed =
  a_mood :: Mood
  a_todos :: "NewTodo list"

definition defaults :: "NewTodo list" where
  "defaults =
     [\<lparr>n_title = ''Hydrate: 8 glasses of water'', n_category = Health\<rparr>,
      \<lparr>n_title = ''10-minute walk'', n_category = Exercise\<rparr>,
      \<lparr>n_title = ''Journal for 5 minutes'', n_category = Reflection\<rparr>,
      \<lparr>n_title = ''5-minute breathing'', n_category = Mindfulness\<rparr>,
      \<lparr>n_title = ''Read 10 pages'', n_category = Learning\<rparr>]"

text \<open>The four keyword rules of \<open>fallbackAnalyze\<close>, each a conditional \<open>push\<close>.\<close>

definition ruleTodos :: "string \<Rightarrow> NewTodo list" where
  "ruleTodos t =
     (let todos0 = [];
          todos1 = (if regexTest [''anxious'', ''stressed'', ''overwhelmed''] t
                    then todos0 @ [\<lparr>n_title = ''5-minute breathing'', n_category = Mindfulness\<rparr>]
                    else todos0);
          todos2 = (if regexTest [''tired'', ''sleep'', ''insomnia''] t
                    then todos1 @ [\<lparr>n_title = ''Wind-down routine before bed'', n_category = Health\<rparr>]
                    else todos1);
          todos3 = (if regexTest [''sad'', ''down'', ''lonely''] t
                    then todos2 @ [\<lparr>n_title = ''Journal for 5 minutes'', n_category = Reflection\<rparr>]
                    else todos2);
          todos4 = (if regexTest [''angry'', ''tense''] t
                    then todos3 @ [\<lparr>n_title = ''10-minute walk'', n_category = Exercise\<rparr>]
                    else todos3)
      in todos4)"

text \<open>
  \<open>titles\<close> is computed once, before the loop over \<open>defaults\<close>, as in the source; the
  loop is a \<open>fold\<close> that pushes while fewer than five items are there.
\<close>

definition fallbackAnalyze :: "string \<Rightarrow> Analyzed" where
  "fallbackAnalyze text =
     (let t = toLowerCase text;
          mood =
            (if regexTest [''great'', ''awesome'', ''fantastic'', ''amazing'', ''grateful'',
                           ''happy'', ''joyful''] t then Excellent
             else if regexTest [''good'', ''fine'', ''better'', ''optimistic'', ''calm''] t then Good
             else if regexTest [''stressed'', ''anxious'', ''sad'', ''tired'', ''overwhelmed'',
                                ''down'', ''lonely'', ''angry''] t then Poor
             else if regexTest [''awful'', ''terrible'', ''horrible'', ''depressed'',
                                ''can't cope'', ''can't cope''] t then Awful
             else Okay);
          todos = ruleTodos t;
          titles = set (map n_title todos);
          todos' = fold (\<lambda>d todos. if length todos < 5 \<and> n_title d \<notin> titles
                                    then todos @ [d] else todos) defaults todos
      in \<lparr>a_mood = mood, a_todos = take 5 todos'\<rparr>)"

section \<open>Store: habits and todos\<close>

text \<open>
  C9. For every store and every mood, \<open>setTodayMood\<close> sets the current-session mood
  indicator to the given value and leaves the mood history, the habits, the todos, the
  chat messages, the sleep entries and the journal entries as they were.
\<close>

theorem setTodayMood_frame:
  "todayMood (setTodayMood mood s) = Some mood \<and>
   moodHistory (setTodayMood mood s) = moodHistory s \<and>
   habits (setTodayMood mood s) = habits s \<and>
   todos (setTodayMood mood s) = todos s \<and>
   chatMessages (setTodayMood mood s) = chatMessages s \<and>
   sleepEntries (setTodayMood mood s) = sleepEntries s \<and>
   journalEntries (setTodayMood mood s) = journalEntries s"
  by (simp add: setTodayMood_def)

lemma toggleOne_other: "(\<forall>h \<in> set xs. h_id h \<noteq> i) \<Longrightarrow> map (toggleOne today i) xs = xs"
  by (induction xs) (simp_all add: toggleOne_def)

text \<open>
  C3. \<open>toggleHabit today i\<close> keeps the number and the order of the habits and changes
  nothing but the habits. A habit whose id is \<open>i\<close> and that was incomplete becomes
  complete, its streak grows by exactly 1 and its completion date is \<open>today\<close>; one that
  was complete becomes incomplete, keeps its streak and loses its completion date; a
  habit with another id is untouched. When no habit has the id \<open>i\<close> the store is
  unchanged.
\<close>

theorem toggleHabit_flips:
  "length (habits (toggleHabit today i s)) = length (habits s) \<and>
   (\<forall>k < length (habits s).
      let h = habits s ! k; h' = habits (toggleHabit today i s) ! k in
        (h_id h = i \<and> \<not> h_completed h \<longrightarrow>
           h' = h\<lparr>h_completed := True, h_streak := h_streak h + 1,
                   h_dateCompleted := Some today\<rparr>) \<and>
        (h_id h = i \<and> h_completed h \<longrightarrow>
           h' = h\<lparr>h_completed := False, h_dateCompleted := None\<rparr> \<and>
           h_streak h' = h_streak h) \<and>
        (h_id h \<noteq> i \<longrightarrow> h' = h)) \<and>
   ((\<forall>h \<in> set (habits s). h_id h \<noteq> i) \<longrightarrow> toggleHabit today i s = s) \<and>
   toggleHabit today i s = s\<lparr>habits := habits (toggleHabit today i s)\<rparr>"
  by (auto simp: toggleHabit_def toggleOne_def Let_def toggleOne_other)

theorem toggleHabit_flips_witness:
  "habits (toggleHabit ''2024-05-01'' ''a''
      ((initialStore ''2024-05-01'' ''n'')\<lparr>habits :=
         [\<lparr>h_id = ''a'', h_name = ''Walk'', h_completed = False, h_streak = 2,
           h_category = Exercise, h_dateCompleted = None\<rparr>,
          \<lparr>h_id = ''b'', h_name = ''Read'', h_completed = True, h_streak = 7,
           h_category = Learning, h_dateCompleted = Some ''2024-04-30''\<rparr>]\<rparr>)) =
     [\<lparr>h_id = ''a'', h_name = ''Walk'', h_completed = True, h_streak = 3,
       h_category = Exercise, h_dateCompleted = Some ''2024-05-01''\<rparr>,
      \<lparr>h_id = ''b'', h_name = ''Read'', h_completed = True, h_streak = 7,
       h_category = Learning, h_dateCompleted = Some ''2024-04-30''\<rparr>] \<and>
   habits (toggleHabit ''2024-05-01'' ''b''
      ((initialStore ''2024-05-01'' ''n'')\<lparr>habits :=
         [\<lparr>h_id = ''b'', h_name = ''Read'', h_completed = True, h_streak = 7,
           h_category = Learning, h_dateCompleted = Some ''2024-04-30''\<rparr>]\<rparr>)) =
     [\<lparr>h_id = ''b'', h_name = ''Read'', h_completed = False, h_streak = 7,
       h_category = Learning, h_dateCompleted = None\<rparr>] \<and>
   toggleHabit ''2024-05-01'' ''zz''
      ((initialStore ''2024-05-01'' ''n'')\<lparr>habits :=
         [\<lparr>h_id = ''b'', h_name = ''Read'', h_completed = True, h_streak = 7,
           h_category = Learning, h_dateCompleted = Some ''2024-04-30''\<rparr>]\<rparr>) =
     (initialStore ''2024-05-01'' ''n'')\<lparr>habits :=
         [\<lparr>h_id = ''b'', h_name = ''Read'', h_completed = True, h_streak = 7,
           h_category = Learning, h_dateCompleted = Some ''2024-04-30''\<rparr>]\<rparr>"
  using
    toggleHabit_flips [of "''2024-05-01''" "''a''"
      "(initialStore ''2024-05-01'' ''n'')\<lparr>habits :=
         [\<lparr>h_id = ''a'', h_name = ''Walk'', h_completed = False, h_streak = 2,
           h_category = Exercise, h_dateCompleted = None\<rparr>,
          \<lparr>h_id = ''b'', h_name = ''Read'', h_completed = True, h_streak = 7,
           h_category = Learning, h_dateCompleted = Some ''2024-04-30''\<rparr>]\<rparr>"]
    toggleHabit_flips [of "''2024-05-01''" "''b''"
      "(initialStore ''2024-05-01'' ''n'')\<lparr>habits :=
         [\<lparr>h_id = ''b'', h_name = ''Read'', h_completed = True, h_streak = 7,
           h_category = Learning, h_dateCompleted = Some ''2024-04-30''\<rparr>]\<rparr>"]
    toggleHabit_flips [of "''2024-05-01''" "''zz''"
      "(initialStore ''2024-05-01'' ''n'')\<lparr>habits :=
         [\<lparr>h_id = ''b'', h_name = ''Read'', h_completed = True, h_streak = 7,
           h_category = Learning, h_dateCompleted = Some ''2024-04-30''\<rparr>]\<rparr>"]
  by (simp add: toggleHabit_def toggleOne_def)

lemma fold_addHabit_habits:
  "habits (fold (\<lambda>(k, t). addHabit u seen (hid k) (t_title t) (Some (t_category t))) xs s) =
   habits s @
   map (\<lambda>(k, t). \<lparr>h_id = hid k, h_name = t_title t, h_completed = False, h_streak = 0,
                   h_category = t_category t, h_dateCompleted = None\<rparr>)
     (filter (\<lambda>(k, t). \<not> list_ex (\<lambda>h. jsToLowerCase u (h_name h) = jsToLowerCase u (t_title t))
                               seen)
        xs)"
  by (induction xs arbitrary: s) (auto simp: addHabit_def Let_def)

lemma jsToLowerCase_Walk: "jsToLowerCase u ''Walk'' = ''walk''"
  by (simp add: jsToLowerCase_def isAscii_def toLowerCase_def toLowerChar_def)

lemma jsToLowerCase_walk: "jsToLowerCase u ''walk'' = ''walk''"
  by (simp add: jsToLowerCase_def isAscii_def toLowerCase_def toLowerChar_def)

text \<open>
  Called from the latest render, \<open>addTodos\<close> with the one item \<open>Walk\<close> mirrors the
  todo into the habits: in a store with no habit whose name equals \<open>Walk\<close> up to case
  it puts one todo at the front, appends one habit and changes nothing else.
\<close>

lemma addTodos_walk_latest_render:
  assumes "\<forall>h \<in> set (habits s). jsToLowerCase u (h_name h) \<noteq> jsToLowerCase u ''Walk''"
  shows "apply_op (AddTodos u tid hid [\<lparr>n_title = ''Walk'', n_category = Exercise\<rparr>]) s =
     s\<lparr>todos := \<lparr>t_id = tid 0, t_title = ''Walk'', t_completed = False,
                  t_category = Exercise\<rparr> # todos s,
       habits := habits s @ [\<lparr>h_id = hid 0, h_name = ''Walk'', h_completed = False,
                  h_streak = 0, h_category = Exercise, h_dateCompleted = None\<rparr>]\<rparr>"
proof -
  from assms have
    "\<not> list_ex (\<lambda>h. jsToLowerCase u (h_name h) = jsToLowerCase u ''Walk'') (habits s)"
    by (simp add: list_ex_iff)
  then show ?thesis
    by (simp add: addTodos_def addHabit_def Let_def)
qed

text \<open>
  C6. The claim fails on the code. \<open>addHabit\<close> tests for a duplicate against the
  \<open>habits\<close> that its closure captured, and \<open>sendMessage\<close> calls \<open>addTodos\<close> after an
  \<open>await\<close>, through the closure of the render in which the message was sent. When a
  habit \<open>Walk\<close> existed in that render and was deleted since, the store has no habit
  named \<open>Walk\<close>, and \<open>addTodos\<close> with the one item \<open>Walk\<close> adds the todo and no habit.
\<close>

theorem addTodos_stale_closure_adds_no_habit:
  "habits (apply_op (DeleteHabit ''h1'')
      (apply_op (AddHabit u ''h1'' ''Walk'' (Some Exercise)) (initialStore today now))) = [] \<and>
   addTodos u
       (habits (apply_op (AddHabit u ''h1'' ''Walk'' (Some Exercise)) (initialStore today now)))
       tid hid [\<lparr>n_title = ''Walk'', n_category = Exercise\<rparr>]
       (apply_op (DeleteHabit ''h1'')
          (apply_op (AddHabit u ''h1'' ''Walk'' (Some Exercise)) (initialStore today now))) =
     (initialStore today now)
       \<lparr>todos := [\<lparr>t_id = tid 0, t_title = ''Walk'', t_completed = False,
                   t_category = Exercise\<rparr>],
        habits := []\<rparr>"
  by (simp add: addTodos_def addHabit_def deleteHabit_def Let_def initialStore_def)

text \<open>
  A single \<open>addHabit\<close> from the latest render does skip a name that a habit already
  has up to case.
\<close>

lemma addHabit_duplicate_noop:
  "h \<in> set (habits s) \<Longrightarrow> jsToLowerCase u (h_name h) = jsToLowerCase u name \<Longrightarrow>
   apply_op (AddHabit u newId name category) s = s"
  by (auto simp: addHabit_def Let_def list_ex_iff)

lemma reachable_initialStore: "reachable (initialStore today now)"
proof -
  have "hydrate None None None (initialStore today now) = initialStore today now"
    by (simp add: hydrate_def)
  with reaches_start [of "hydrate None None None (initialStore today now)"] show ?thesis
    unfolding reachable_def by metis
qed

lemma reachable_apply_op: "reachable s \<Longrightarrow> reachable (apply_op op s)"
  unfolding reachable_def by (blast intro: reaches_step)

text \<open>
  C4. The claim fails on the code. All the \<open>addHabit\<close> calls that \<open>addTodos\<close> makes
  for one batch test for a duplicate against the same captured \<open>habits\<close>, so two items
  of one batch whose titles are equal up to case both pass the test and both are
  appended: from the initial store, the batch \<open>Walk\<close>, \<open>walk\<close> leaves two habits whose
  names are equal up to case.
\<close>

theorem addTodos_batch_duplicates:
  "map h_name (habits (apply_op (AddTodos u tid hid
       [\<lparr>n_title = ''Walk'', n_category = Exercise\<rparr>,
        \<lparr>n_title = ''walk'', n_category = Exercise\<rparr>]) (initialStore today now)))
     = [''Walk'', ''walk''] \<and>
   jsToLowerCase u ''Walk'' = jsToLowerCase u ''walk'' \<and>
   reachable (apply_op (AddTodos u tid hid
       [\<lparr>n_title = ''Walk'', n_category = Exercise\<rparr>,
        \<lparr>n_title = ''walk'', n_category = Exercise\<rparr>]) (initialStore today now))"
proof -
  have "reachable (apply_op (AddTodos u tid hid
       [\<lparr>n_title = ''Walk'', n_category = Exercise\<rparr>,
        \<lparr>n_title = ''walk'', n_category = Exercise\<rparr>]) (initialStore today now))"
    by (rule reachable_apply_op) (rule reachable_initialStore)
  then show ?thesis
    by (simp add: addTodos_def addHabit_def Let_def initialStore_def jsToLowerCase_Walk
          jsToLowerCase_walk)
qed

lemma addHabit_extends:
  "\<exists>new. habits (addHabit u seen newId name category s) = habits s @ new"
  by (simp add: addHabit_def Let_def)

lemma addTodos_extends: "\<exists>new. habits (addTodos u seen tid hid items s) = habits s @ new"
  by (simp add: addTodos_def Let_def fold_addHabit_habits)

lemma toggleOne_streak:
  "h_id (toggleOne today i h) = h_id h \<and>
   (h_streak (toggleOne today i h) = h_streak h \<or>
    h_streak (toggleOne today i h) = h_streak h + 1)"
  by (simp add: toggleOne_def)

text \<open>An element that a filter keeps is found after as many elements as were kept before it.\<close>

lemma filter_nth_kept:
  assumes "k < length xs" and "P (xs ! k)"
  shows "length (filter P (take k xs)) < length (filter P xs) \<and>
         filter P xs ! length (filter P (take k xs)) = xs ! k"
proof -
  from assms(1) have "xs = take k xs @ xs ! k # drop (Suc k) xs"
    by (rule id_take_nth_drop)
  then have "filter P xs = filter P (take k xs) @ filter P (xs ! k # drop (Suc k) xs)"
    by (metis filter_append)
  with assms(2) have split:
    "filter P xs = filter P (take k xs) @ xs ! k # filter P (drop (Suc k) xs)"
    by simp
  show ?thesis
    by (subst (1 2) split) (simp add: nth_append)
qed

lemma step_track:
  assumes "position_after op s k = Some k'"
  shows "k < length (habits s) \<and> k' < length (habits (apply_op op s)) \<and>
     (case op of
        ToggleHabit today i \<Rightarrow> habits (apply_op op s) ! k' = toggleOne today i (habits s ! k)
      | _ \<Rightarrow> habits (apply_op op s) ! k' = habits s ! k)"
proof (cases op)
  case (AddHabit u newId name category)
  obtain new where "habits (addHabit u (habits s) newId name category s) = habits s @ new"
    using addHabit_extends by blast
  with assms AddHabit show ?thesis
    by (auto simp: nth_append split: if_splits)
next
  case (AddTodos u tid hid items)
  obtain new where "habits (addTodos u (habits s) tid hid items s) = habits s @ new"
    using addTodos_extends by blast
  with assms AddTodos show ?thesis
    by (auto simp: nth_append split: if_splits)
next
  case (DeleteHabit i)
  with assms have k: "k < length (habits s)" and keep: "h_id (habits s ! k) \<noteq> i"
    and k': "k' = length (filter (\<lambda>h. h_id h \<noteq> i) (take k (habits s)))"
    by (auto split: if_splits)
  from filter_nth_kept [of k "habits s" "\<lambda>h. h_id h \<noteq> i", OF k keep] k k' DeleteHabit
  show ?thesis
    by (simp add: deleteHabit_def)
qed (use assms in \<open>auto simp: setTodayMood_def addMoodEntry_def toggleHabit_def
        addChatMessage_def addSleepEntry_def addJournalEntry_def updateJournalEntry_def
        deleteJournalEntry_def Let_def split: if_splits\<close>)

lemma step_streak:
  assumes "position_after op s k = Some k'"
  shows "h_id (habits (apply_op op s) ! k') = h_id (habits s ! k) \<and>
         h_streak (habits s ! k) \<le> h_streak (habits (apply_op op s) ! k')"
proof (cases op)
  case (ToggleHabit today i)
  with step_track [OF assms] toggleOne_streak [of today i "habits s ! k"] show ?thesis
    by auto
qed (use step_track [OF assms] in \<open>simp_all\<close>)

lemma run_streak:
  "position_after_run ops s k = Some k' \<Longrightarrow>
     k < length (habits s) \<and> k' < length (habits (run ops s)) \<and>
     h_id (habits (run ops s) ! k') = h_id (habits s ! k) \<and>
     h_streak (habits s ! k) \<le> h_streak (habits (run ops s) ! k')"
proof (induction ops arbitrary: s k)
  case Nil
  then show ?case by (simp split: if_splits)
next
  case (Cons op ops)
  from Cons.prems obtain j where j: "position_after op s k = Some j"
    and rest: "position_after_run ops (apply_op op s) j = Some k'"
    by (auto split: option.splits)
  from step_track [OF j] have "k < length (habits s)" by simp
  with step_streak [OF j] Cons.IH [OF rest] show ?case
    by simp
qed

text \<open>
  C10. Take the habit at index \<open>k\<close> of a store and one store operation after which it
  still exists, at index \<open>k'\<close>. If the operation is \<open>toggleHabit\<close>, the habit after is
  the toggled habit: its id is the same and its streak is equal or greater by exactly
  1. After every other operation the habit is the very same record. Through any
  sequence of operations that does not delete it, the habit keeps its id and its
  streak, a natural number, never decreases.
\<close>

theorem streak_never_decreases:
 "(position_after op s k = Some k' \<longrightarrow>
     k < length (habits s) \<and> k' < length (habits (apply_op op s)) \<and>
     (let h = habits s ! k; h' = habits (apply_op op s) ! k' in
        case op of
          ToggleHabit today i \<Rightarrow>
            h' = toggleOne today i h \<and> h_id h' = h_id h \<and>
            (h_streak h' = h_streak h \<or> h_streak h' = h_streak h + 1)
        | _ \<Rightarrow> h' = h)) \<and>
  (position_after_run ops s k = Some k' \<longrightarrow>
     k < length (habits s) \<and> k' < length (habits (run ops s)) \<and>
     h_id (habits (run ops s) ! k') = h_id (habits s ! k) \<and>
     h_streak (habits s ! k) \<le> h_streak (habits (run ops s) ! k'))"
  (is "(?p1 \<longrightarrow> ?c1) \<and> (?p2 \<longrightarrow> ?c2)")
proof (rule conjI; rule impI)
  assume p1: ?p1
  show ?c1
  proof (cases op)
    case (ToggleHabit today i)
    with step_track [OF p1] toggleOne_streak [of today i "habits s ! k"] show ?thesis
      by (simp add: Let_def)
  qed (use step_track [OF p1] in \<open>simp_all add: Let_def\<close>)
next
  assume ?p2
  then show ?c2 by (rule run_streak)
qed

theorem streak_never_decreases_witness:
  "position_after (DeleteHabit ''a'')
      ((initialStore ''d'' ''n'')\<lparr>habits :=
         [\<lparr>h_id = ''a'', h_name = ''Walk'', h_completed = False, h_streak = 2,
           h_category = Exercise, h_dateCompleted = None\<rparr>,
          \<lparr>h_id = ''b'', h_name = ''Read'', h_completed = False, h_streak = 7,
           h_category = Learning, h_dateCompleted = None\<rparr>]\<rparr>) 1 = Some 0 \<and>
   habits (apply_op (DeleteHabit ''a'')
      ((initialStore ''d'' ''n'')\<lparr>habits :=
         [\<lparr>h_id = ''a'', h_name = ''Walk'', h_completed = False, h_streak = 2,
           h_category = Exercise, h_dateCompleted = None\<rparr>,
          \<lparr>h_id = ''b'', h_name = ''Read'', h_completed = False, h_streak = 7,
           h_category = Learning, h_dateCompleted = None\<rparr>]\<rparr>)) ! 0 =
     \<lparr>h_id = ''b'', h_name = ''Read'', h_completed = False, h_streak = 7,
      h_category = Learning, h_dateCompleted = None\<rparr> \<and>
   position_after_run
      [ToggleHabit ''d'' ''b'', DeleteHabit ''a'', ToggleHabit ''d'' ''b'', ToggleHabit ''e'' ''b'']
      ((initialStore ''d'' ''n'')\<lparr>habits :=
         [\<lparr>h_id = ''a'', h_name = ''Walk'', h_completed = False, h_streak = 2,
           h_category = Exercise, h_dateCompleted = None\<rparr>,
          \<lparr>h_id = ''b'', h_name = ''Read'', h_completed = False, h_streak = 7,
           h_category = Learning, h_dateCompleted = None\<rparr>]\<rparr>) 1 = Some 0 \<and>
   h_streak (habits (run
      [ToggleHabit ''d'' ''b'', DeleteHabit ''a'', ToggleHabit ''d'' ''b'', ToggleHabit ''e'' ''b'']
      ((initialStore ''d'' ''n'')\<lparr>habits :=
         [\<lparr>h_id = ''a'', h_name = ''Walk'', h_completed = False, h_streak = 2,
           h_category = Exercise, h_dateCompleted = None\<rparr>,
          \<lparr>h_id = ''b'', h_name = ''Read'', h_completed = False, h_streak = 7,
           h_category = Learning, h_dateCompleted = None\<rparr>]\<rparr>)) ! 0) = 9"
  using streak_never_decreases
    [of "DeleteHabit ''a''"
      "(initialStore ''d'' ''n'')\<lparr>habits :=
         [\<lparr>h_id = ''a'', h_name = ''Walk'', h_completed = False, h_streak = 2,
           h_category = Exercise, h_dateCompleted = None\<rparr>,
          \<lparr>h_id = ''b'', h_name = ''Read'', h_completed = False, h_streak = 7,
           h_category = Learning, h_dateCompleted = None\<rparr>]\<rparr>" 1 0
      "[ToggleHabit ''d'' ''b'', DeleteHabit ''a'', ToggleHabit ''d'' ''b'', ToggleHabit ''e'' ''b'']"]
  by (simp add: toggleHabit_def toggleOne_def deleteHabit_def)

section \<open>Store: sleep entries\<close>











section \<open>Persistence bridge\<close>

text \<open>
  C2, as the claim states it, fails twice. A stored empty array is a valid sequence of
  chat messages, yet the chat effect keeps the default transcript, because it also
  tests \<open>parsed.length > 0\<close>. And the stored text \<open>[null]\<close> is no sequence of sleep
  entries, yet the sleep effect installs it, because the effects test \<open>Array.isArray\<close>
  and nothing about the elements.
\<close>

theorem hydration_counterexample:
  "list_all is_ChatMessage [] \<and>
   hydrateChat (parseOnly ''[]'' (JArr [])) (Inr (Some ''[]''))
       [greeting ''2024-01-01T00:00:00.000Z''] =
     [greeting ''2024-01-01T00:00:00.000Z''] \<and>
   [greeting ''2024-01-01T00:00:00.000Z''] \<noteq> [] \<and>
   \<not> list_all is_SleepEntry [JNull] \<and>
   hydrateSleep (parseOnly ''[null]'' (JArr [JNull])) (Inr (Some ''[null]'')) [] = [JNull]"
  by (simp add: hydrateChat_def hydrateChat_try_def hydrateSleep_def hydrateSleep_try_def
        parseOnly_def is_SleepEntry_def hasString_def)

text \<open>
  C2, amended. When the stored text is present, not empty, and parses to an array, the
  sleep and journal collections are replaced by that array, whatever its elements, and
  the chat collection is replaced by it when it is not empty and kept when it is empty.
  When reading the store throws, the value is absent or the empty text, parsing
  throws, or the parsed value is not an array, all three collections are kept. Each
  effect returns a collection in every case: an exception of its \<open>try\<close> block ends in
  the collection it started with.
\<close>

theorem hydration_replaces_on_array:
  "(getItem = Inr (Some raw) \<and> raw \<noteq> [] \<and> parse raw = Inr (JArr xs) \<longrightarrow>
      hydrateChat parse getItem current = (if xs \<noteq> [] then xs else current) \<and>
      hydrateSleep parse getItem current = xs \<and>
      hydrateJournal parse getItem current = xs) \<and>
   ((\<exists>e. getItem = Inl e) \<or> getItem = Inr None \<or> getItem = Inr (Some []) \<or>
    getItem = Inr (Some raw) \<and> (case parse raw of Inl e \<Rightarrow> True | Inr v \<Rightarrow> \<not> isArray v) \<longrightarrow>
      hydrateChat parse getItem current = current \<and>
      hydrateSleep parse getItem current = current \<and>
      hydrateJournal parse getItem current = current) \<and>
   ((\<exists>e. hydrateChat_try parse getItem current = Inl e) \<longrightarrow>
      hydrateChat parse getItem current = current) \<and>
   ((\<exists>e. hydrateSleep_try parse getItem current = Inl e) \<longrightarrow>
      hydrateSleep parse getItem current = current) \<and>
   ((\<exists>e. hydrateJournal_try parse getItem current = Inl e) \<longrightarrow>
      hydrateJournal parse getItem current = current)"
  by (auto simp: hydrateChat_def hydrateChat_try_def hydrateSleep_def hydrateSleep_try_def
        hydrateJournal_def hydrateJournal_try_def split: sum.splits option.splits)

theorem hydration_replaces_on_array_witness:
  "hydrateChat (parseOnly ''[null]'' (JArr [JNull])) (Inr (Some ''[null]'')) [] = [JNull] \<and>
   hydrateSleep (parseOnly ''[null]'' (JArr [JNull])) (Inr (Some ''[null]'')) [] = [JNull] \<and>
   hydrateJournal (parseOnly ''[null]'' (JArr [JNull])) (Inr None) [JNull] = [JNull] \<and>
   hydrateChat_try (parseOnly ''[]'' (JArr [])) (Inr (Some ''{'')) [JNull] =
     Inl (Error ''SyntaxError'') \<and>
   hydrateChat (parseOnly ''[]'' (JArr [])) (Inr (Some ''{'')) [JNull] = [JNull]"
  using
    hydration_replaces_on_array
      [of "Inr (Some ''[null]'')" "''[null]''" "parseOnly ''[null]'' (JArr [JNull])"
          "[JNull]" "[]"]
    hydration_replaces_on_array
      [of "Inr None" "[]" "parseOnly ''[null]'' (JArr [JNull])" "[]" "[JNull]"]
    hydration_replaces_on_array
      [of "Inr (Some ''{'')" "''{''" "parseOnly ''[]'' (JArr [])" "[]" "[JNull]"]
  by (simp add: parseOnly_def hydrateChat_try_def)

section \<open>Chat component: classification fallback\<close>

text \<open>\<open>occursIn\<close> is the contiguous-substring relation of the list library.\<close>

lemma occursIn_sublist: "occursIn pat s \<longleftrightarrow> sublist pat s"
  by (induction s) (auto simp: sublist_Cons_right)

text \<open>The loop over \<open>defaults\<close>, for any bound and any test fixed before the loop.\<close>

lemma fold_defaults:
  "fold (\<lambda>d todos. if length todos < n \<and> P d then todos @ [d] else todos) ds acc =
   acc @ take (n - length acc) (filter P ds)"
proof (induction ds arbitrary: acc)
  case Nil
  show ?case by simp
next
  case (Cons d ds)
  show ?case
  proof (cases "length acc < n \<and> P d")
    case True
    then obtain m where m: "n - length acc = Suc m"
      by (cases "n - length acc") auto
    then have "n - Suc (length acc) = m"
      by simp
    with m True Cons.IH [of "acc @ [d]"] show ?thesis
      by simp
  next
    case False
    with Cons.IH [of acc] show ?thesis
      by (cases "P d") simp_all
  qed
qed

lemma a_todos_fallbackAnalyze:
  "a_todos (fallbackAnalyze text) =
     take 5 (ruleTodos (toLowerCase text) @
       take (5 - length (ruleTodos (toLowerCase text)))
         (filter (\<lambda>d. n_title d \<notin> set (map n_title (ruleTodos (toLowerCase text)))) defaults))"
  by (simp add: fallbackAnalyze_def Let_def fold_defaults)

lemma ruleTodos_flags:
  "ruleTodos t =
     (if regexTest [''anxious'', ''stressed'', ''overwhelmed''] t
      then [\<lparr>n_title = ''5-minute breathing'', n_category = Mindfulness\<rparr>] else []) @
     (if regexTest [''tired'', ''sleep'', ''insomnia''] t
      then [\<lparr>n_title = ''Wind-down routine before bed'', n_category = Health\<rparr>] else []) @
     (if regexTest [''sad'', ''down'', ''lonely''] t
      then [\<lparr>n_title = ''Journal for 5 minutes'', n_category = Reflection\<rparr>] else []) @
     (if regexTest [''angry'', ''tense''] t
      then [\<lparr>n_title = ''10-minute walk'', n_category = Exercise\<rparr>] else [])"
  by (simp add: ruleTodos_def Let_def)

text \<open>Whichever of the four rules fire, the list ends with five items of distinct titles.\<close>

lemma ruleTodos_shape:
  "length (ruleTodos t @ take (5 - length (ruleTodos t))
       (filter (\<lambda>d. n_title d \<notin> set (map n_title (ruleTodos t))) defaults)) = 5 \<and>
   distinct (map n_title (ruleTodos t @ take (5 - length (ruleTodos t))
       (filter (\<lambda>d. n_title d \<notin> set (map n_title (ruleTodos t))) defaults)))"
  unfolding ruleTodos_flags
  by (cases "regexTest [''anxious'', ''stressed'', ''overwhelmed''] t";
      cases "regexTest [''tired'', ''sleep'', ''insomnia''] t";
      cases "regexTest [''sad'', ''down'', ''lonely''] t";
      cases "regexTest [''angry'', ''tense''] t")
     (simp_all add: defaults_def)

text \<open>
  C7. For every input text \<open>fallbackAnalyze\<close> returns a result (it is a total function
  with no failing branch): one mood of the five, and between 1 and 5 action items,
  each with one of the five categories, no two with the same title. The items are the
  ones the keyword rules pushed, followed by the defaults whose titles the rules did
  not push, in the order of the default list, as many as fit under five.
\<close>

theorem fallbackAnalyze_shape:
  "a_mood (fallbackAnalyze text) \<in> {Excellent, Good, Okay, Poor, Awful} \<and>
   1 \<le> length (a_todos (fallbackAnalyze text)) \<and>
   length (a_todos (fallbackAnalyze text)) \<le> 5 \<and>
   n_category ` set (a_todos (fallbackAnalyze text))
     \<subseteq> {Mindfulness, Health, Reflection, Exercise, Learning} \<and>
   distinct (map n_title (a_todos (fallbackAnalyze text))) \<and>
   a_todos (fallbackAnalyze text) =
     ruleTodos (toLowerCase text) @
       take (5 - length (ruleTodos (toLowerCase text)))
         (filter (\<lambda>d. n_title d \<notin> set (map n_title (ruleTodos (toLowerCase text)))) defaults)"
proof -
  let ?rules = "ruleTodos (toLowerCase text)"
  let ?all = "?rules @ take (5 - length ?rules)
         (filter (\<lambda>d. n_title d \<notin> set (map n_title ?rules)) defaults)"
  have len: "length ?all = 5" and dist: "distinct (map n_title ?all)"
    using ruleTodos_shape [of "toLowerCase text"] by blast+
  have eq: "a_todos (fallbackAnalyze text) = ?all"
    using len by (simp only: a_todos_fallbackAnalyze take_all)
  have mood: "a_mood (fallbackAnalyze text) \<in> {Excellent, Good, Okay, Poor, Awful}"
    by (cases "a_mood (fallbackAnalyze text)") simp_all
  have cat: "n_category ` set (a_todos (fallbackAnalyze text))
     \<subseteq> {Mindfulness, Health, Reflection, Exercise, Learning}"
  proof
    fix c assume "c \<in> n_category ` set (a_todos (fallbackAnalyze text))"
    show "c \<in> {Mindfulness, Health, Reflection, Exercise, Learning}"
      by (cases c) simp_all
  qed
  from mood cat len dist show ?thesis
    unfolding eq by simp
qed

text \<open>The single tests on the lower-cased example text, one lemma each.\<close>

lemma example_lower:
  "toLowerCase ''I feel anxious and can't sleep'' = ''i feel anxious and can't sleep''"
  by (simp add: toLowerCase_def toLowerChar_def)

lemma example_not_excellent:
  "\<not> regexTest [''great'', ''awesome'', ''fantastic'', ''amazing'', ''grateful'', ''happy'',
        ''joyful''] ''i feel anxious and can't sleep''"
  by (simp add: regexTest_def)

lemma example_not_good:
  "\<not> regexTest [''good'', ''fine'', ''better'', ''optimistic'', ''calm'']
        ''i feel anxious and can't sleep''"
  by (simp add: regexTest_def)

lemma example_poor:
  "regexTest [''stressed'', ''anxious'', ''sad'', ''tired'', ''overwhelmed'', ''down'', ''lonely'',
      ''angry''] ''i feel anxious and can't sleep''"
  by (simp add: regexTest_def)

lemma example_breathing:
  "regexTest [''anxious'', ''stressed'', ''overwhelmed''] ''i feel anxious and can't sleep''"
  by (simp add: regexTest_def)

lemma example_sleep:
  "regexTest [''tired'', ''sleep'', ''insomnia''] ''i feel anxious and can't sleep''"
  by (simp add: regexTest_def)

lemma example_no_journal:
  "\<not> regexTest [''sad'', ''down'', ''lonely''] ''i feel anxious and can't sleep''"
  by (simp add: regexTest_def)

lemma example_no_walk:
  "\<not> regexTest [''angry'', ''tense''] ''i feel anxious and can't sleep''"
  by (simp add: regexTest_def)

lemma example_rules:
  "ruleTodos ''i feel anxious and can't sleep'' =
     [\<lparr>n_title = ''5-minute breathing'', n_category = Mindfulness\<rparr>,
      \<lparr>n_title = ''Wind-down routine before bed'', n_category = Health\<rparr>]"
  by (simp only: ruleTodos_flags example_breathing example_sleep example_no_journal
        example_no_walk if_True if_False append_Nil append_Cons append_Nil2)

lemma example_todos:
  "a_todos (fallbackAnalyze ''I feel anxious and can't sleep'') =
     [\<lparr>n_title = ''5-minute breathing'', n_category = Mindfulness\<rparr>,
      \<lparr>n_title = ''Wind-down routine before bed'', n_category = Health\<rparr>,
      \<lparr>n_title = ''Hydrate: 8 glasses of water'', n_category = Health\<rparr>,
      \<lparr>n_title = ''10-minute walk'', n_category = Exercise\<rparr>,
      \<lparr>n_title = ''Journal for 5 minutes'', n_category = Reflection\<rparr>]"
  unfolding a_todos_fallbackAnalyze example_lower example_rules
  by (simp add: defaults_def)

lemma example_mood: "a_mood (fallbackAnalyze ''I feel anxious and can't sleep'') = Poor"
  by (simp add: fallbackAnalyze_def Let_def example_lower example_not_excellent
        example_not_good example_poor)

text \<open>
  C8. On the text \<open>I feel anxious and can't sleep\<close> the fallback returns the mood
  \<open>poor\<close> and five action items: the breathing item of category mindfulness and the
  wind-down-before-bed item of category health that the rules pushed, then three
  defaults. The length is between 1 and 5 and no title occurs twice.
\<close>

theorem fallbackAnalyze_anxious_sleep:
  "a_mood (fallbackAnalyze ''I feel anxious and can't sleep'') = Poor \<and>
   a_todos (fallbackAnalyze ''I feel anxious and can't sleep'') =
     [\<lparr>n_title = ''5-minute breathing'', n_category = Mindfulness\<rparr>,
      \<lparr>n_title = ''Wind-down routine before bed'', n_category = Health\<rparr>,
      \<lparr>n_title = ''Hydrate: 8 glasses of water'', n_category = Health\<rparr>,
      \<lparr>n_title = ''10-minute walk'', n_category = Exercise\<rparr>,
      \<lparr>n_title = ''Journal for 5 minutes'', n_category = Reflection\<rparr>] \<and>
   \<lparr>n_title = ''5-minute breathing'', n_category = Mindfulness\<rparr>
     \<in> set (a_todos (fallbackAnalyze ''I feel anxious and can't sleep'')) \<and>
   \<lparr>n_title = ''Wind-down routine before bed'', n_category = Health\<rparr>
     \<in> set (a_todos (fallbackAnalyze ''I feel anxious and can't sleep'')) \<and>
   1 \<le> length (a_todos (fallbackAnalyze ''I feel anxious and can't sleep'')) \<and>
   length (a_todos (fallbackAnalyze ''I feel anxious and can't sleep'')) \<le> 5 \<and>
   distinct (map n_title (a_todos (fallbackAnalyze ''I feel anxious and can't sleep'')))"
  unfolding example_todos example_mood
  by simp

section \<open>Chat component: crisis language\<close>

text \<open>
  When the assistant returns a text, the reply to a crisis message does start with the
  preamble.
\<close>

lemma crisis_reply_on_success:
  "apiKey = Some k \<Longrightarrow> k \<noteq> [] \<Longrightarrow> crisisRegex_test userText \<Longrightarrow>
   sendMessage_reply apiKey (Inr text) r userText = preamble @ text"
  by (simp add: sendMessage_reply_def generateBotReply_def)

text \<open>
  C1. The claim fails on the code. The crisis test stands inside \<open>generateBotReply\<close>
  after the call to the assistant, so it is never reached when the key is missing or
  the call throws: \<open>sendMessage\<close> then answers with a canned response, and no canned
  response starts with the preamble. The message \<open>I want to end it all\<close> matches the
  crisis pattern and gets such an answer.
\<close>

theorem crisis_fallback_without_preamble:
  "crisisRegex_test ''I want to end it all'' \<and>
   sendMessage_reply None response r ''I want to end it all'' = botResponses ! r \<and>
   sendMessage_reply apiKey (Inl e) r ''I want to end it all'' = botResponses ! r \<and>
   list_all (\<lambda>reply. \<not> prefix preamble reply) botResponses"
proof -
  have "toLowerCase ''I want to end it all'' = ''i want to end it all''"
    by (simp add: toLowerCase_def toLowerChar_def)
  then have crisis: "crisisRegex_test ''I want to end it all''"
    by (simp add: crisisRegex_test_def crisisRegex_def regexTest_def)
  have none: "sendMessage_reply None response r u = botResponses ! r" for u
    by (simp add: sendMessage_reply_def generateBotReply_def)
  have failed: "sendMessage_reply apiKey (Inl e) r u = botResponses ! r" for u
    by (simp add: sendMessage_reply_def generateBotReply_def)
  have canned: "list_all (\<lambda>reply. \<not> prefix preamble reply) botResponses"
    by (simp add: botResponses_def preamble_def)
  from crisis none failed canned show ?thesis by simp
qed

end
